theory Spec2Isabelle
  imports Complex_Main "HOL-Library.Word" "HOL-Library.Signed_Division"
begin

section \<open>Machine types of the Go sources\<close>

text \<open>
  Go's \<open>int\<close> is taken to be the 64-bit two's complement integer of the usual build
  targets: \<open>+\<close>, \<open>-\<close> and \<open>*\<close> wrap around, comparisons read the value with
  \<open>sint\<close>.  \<open>uint64\<close> player ids are 64-bit words that are only compared for equality.
\<close>

type_synonym goint = "64 word"
type_synonym uint64 = "64 word"

text \<open>Go's \<open>%\<close> truncates towards zero (the sign of the result follows the dividend).\<close>

definition go_rem :: "goint \<Rightarrow> goint \<Rightarrow> goint" where
  "go_rem a b = word_of_int (sint a smod sint b)"

section \<open>parser/advantage\_tracker.go\<close>

text \<open>
  \<open>common.Team\<close> comes from the demo-parsing library: a byte with the four named values
  \<open>TeamUnassigned = 0\<close>, \<open>TeamSpectators = 1\<close>, \<open>TeamTerrorists = 2\<close>,
  \<open>TeamCounterTerrorists = 3\<close>.  Every byte is a value of the type.
\<close>

type_synonym Team = "8 word"

definition TeamUnassigned :: Team where "TeamUnassigned = 0"
definition TeamSpectators :: Team where "TeamSpectators = 1"
definition TeamTerrorists :: Team where "TeamTerrorists = 2"
definition TeamCounterTerrorists :: Team where "TeamCounterTerrorists = 3"

record AdvantageSlot =
  PlayerID :: uint64
  Side :: Team

record AdvantageTracker =
  tSlots :: "AdvantageSlot list"
  ctSlots :: "AdvantageSlot list"

definition NewAdvantageTracker :: AdvantageTracker where
  "NewAdvantageTracker = \<lparr>tSlots = [], ctSlots = []\<rparr>"

definition Reset :: "AdvantageTracker \<Rightarrow> AdvantageTracker" where
  "Reset tk = tk\<lparr>tSlots := [], ctSlots := []\<rparr>"

definition getSlots :: "AdvantageTracker \<Rightarrow> Team \<Rightarrow> AdvantageSlot list" where
  "getSlots tk side = (if side = TeamTerrorists then tSlots tk else ctSlots tk)"

definition setSlots :: "AdvantageTracker \<Rightarrow> Team \<Rightarrow> AdvantageSlot list \<Rightarrow> AdvantageTracker" where
  "setSlots tk side slots =
     (if side = TeamTerrorists then tk\<lparr>tSlots := slots\<rparr> else tk\<lparr>ctSlots := slots\<rparr>)"

definition addSlot :: "AdvantageTracker \<Rightarrow> Team \<Rightarrow> AdvantageSlot \<Rightarrow> AdvantageTracker" where
  "addSlot tk side slot =
     (if side = TeamTerrorists then tk\<lparr>tSlots := tSlots tk @ [slot]\<rparr>
      else tk\<lparr>ctSlots := ctSlots tk @ [slot]\<rparr>)"

text \<open>
  The \<open>for _, slot := range slots\<close> loop of \<open>RecordKill\<close>.  The accumulators are the
  slice \<open>survivalBeneficiaries\<close> and the map \<open>seen\<close>; a Go \<open>map[uint64]bool\<close> reads
  \<open>false\<close> at a key that was never stored, so it is a total function to \<open>bool\<close>.
\<close>

fun RecordKill_loop :: "uint64 \<Rightarrow> AdvantageSlot list \<Rightarrow> uint64 list \<Rightarrow> (uint64 \<Rightarrow> bool)
    \<Rightarrow> uint64 list" where
  "RecordKill_loop killerID [] survivalBeneficiaries seen = survivalBeneficiaries"
| "RecordKill_loop killerID (slot # rest) survivalBeneficiaries seen =
     (if PlayerID slot \<noteq> killerID \<and> \<not> seen (PlayerID slot)
      then RecordKill_loop killerID rest (survivalBeneficiaries @ [PlayerID slot])
             (seen(PlayerID slot := True))
      else RecordKill_loop killerID rest survivalBeneficiaries seen)"

text \<open>\<open>RecordKill\<close> returns the beneficiaries together with the updated tracker.\<close>

definition RecordKill :: "AdvantageTracker \<Rightarrow> uint64 \<Rightarrow> Team \<Rightarrow> uint64 list \<times> AdvantageTracker" where
  "RecordKill tk killerID killerSide =
     (let slots = getSlots tk killerSide;
          survivalBeneficiaries = RecordKill_loop killerID slots [] (\<lambda>_. False);
          tk' = addSlot tk killerSide \<lparr>PlayerID = killerID, Side = killerSide\<rparr>
      in (survivalBeneficiaries, tk'))"

text \<open>The filtering loop of \<open>removePlayerSlots\<close>.\<close>

fun removePlayerSlots_loop :: "uint64 \<Rightarrow> AdvantageSlot list \<Rightarrow> AdvantageSlot list
    \<Rightarrow> AdvantageSlot list" where
  "removePlayerSlots_loop playerID [] filtered = filtered"
| "removePlayerSlots_loop playerID (slot # rest) filtered =
     (if PlayerID slot \<noteq> playerID
      then removePlayerSlots_loop playerID rest (filtered @ [slot])
      else removePlayerSlots_loop playerID rest filtered)"

definition removePlayerSlots :: "AdvantageTracker \<Rightarrow> uint64 \<Rightarrow> Team \<Rightarrow> AdvantageTracker" where
  "removePlayerSlots tk playerID side =
     (let slots = getSlots tk side;
          filtered = removePlayerSlots_loop playerID slots []
      in setSlots tk side filtered)"

definition RecordDeath :: "AdvantageTracker \<Rightarrow> uint64 \<Rightarrow> Team \<Rightarrow> AdvantageTracker" where
  "RecordDeath tk victimID victimSide =
     (let slots = getSlots tk victimSide;
          tk1 = (if length slots > 0 then setSlots tk victimSide (drop 1 slots) else tk)
      in removePlayerSlots tk1 victimID victimSide)"

text \<open>
  The wording of the specification for the beneficiaries of a kill: the distinct ids,
  each at the place of its first (oldest) slot, the killer left out.
\<close>

fun firstOccurrences :: "'a list \<Rightarrow> 'a list" where
  "firstOccurrences [] = []"
| "firstOccurrences (x # xs) = x # firstOccurrences (filter (\<lambda>y. y \<noteq> x) xs)"

definition beneficiaries_spec :: "AdvantageSlot list \<Rightarrow> uint64 \<Rightarrow> uint64 list" where
  "beneficiaries_spec slots k = firstOccurrences (filter (\<lambda>p. p \<noteq> k) (map PlayerID slots))"

text \<open>The ledger that a call with the given side does not touch.\<close>

definition otherSlots :: "AdvantageTracker \<Rightarrow> Team \<Rightarrow> AdvantageSlot list" where
  "otherSlots tk side = (if side = TeamTerrorists then ctSlots tk else tSlots tk)"

section \<open>rating/weights.go\<close>

text \<open>The untyped numeric constants of the file, as exact numbers.\<close>

definition BaselineKPR :: real where "BaselineKPR = 0.72"
definition BaselineDPR :: real where "BaselineDPR = 0.68"
definition BaselineADR :: real where "BaselineADR = 77.0"
definition BaselineKAST :: real where "BaselineKAST = 0.72"

definition EcoKillPistolVsRifle :: real where "EcoKillPistolVsRifle = 1.80"
definition EcoKillEcoVsForce :: real where "EcoKillEcoVsForce = 1.50"
definition EcoKillForceVsFullBuy :: real where "EcoKillForceVsFullBuy = 1.25"
definition EcoKillSlightDisadvantage :: real where "EcoKillSlightDisadvantage = 1.10"
definition EcoKillEqual :: real where "EcoKillEqual = 1.00"
definition EcoKillSlightAdvantage :: real where "EcoKillSlightAdvantage = 0.95"
definition EcoKillAdvantage :: real where "EcoKillAdvantage = 0.85"
definition EcoKillRifleVsPistol :: real where "EcoKillRifleVsPistol = 0.70"

definition EcoDeathToPistol :: real where "EcoDeathToPistol = 1.60"
definition EcoDeathToEco :: real where "EcoDeathToEco = 1.40"
definition EcoDeathToForceBuy :: real where "EcoDeathToForceBuy = 1.20"
definition EcoDeathSlightAdvantage :: real where "EcoDeathSlightAdvantage = 1.10"
definition EcoDeathEqual :: real where "EcoDeathEqual = 1.00"
definition EcoDeathSlightDisadvantage :: real where "EcoDeathSlightDisadvantage = 0.95"
definition EcoDeathDisadvantage :: real where "EcoDeathDisadvantage = 0.85"
definition EcoDeathPistolVsRifle :: real where "EcoDeathPistolVsRifle = 0.70"

text \<open>
  The two tier tables in the order of the source, from the largest attacker disadvantage
  (kill table) and from the cheapest killer (death table) downwards.
\<close>

definition ecoKillTiers :: "real list" where
  "ecoKillTiers = [EcoKillPistolVsRifle, EcoKillEcoVsForce, EcoKillForceVsFullBuy,
     EcoKillSlightDisadvantage, EcoKillEqual, EcoKillSlightAdvantage, EcoKillAdvantage,
     EcoKillRifleVsPistol]"

definition ecoDeathTiers :: "real list" where
  "ecoDeathTiers = [EcoDeathToPistol, EcoDeathToEco, EcoDeathToForceBuy,
     EcoDeathSlightAdvantage, EcoDeathEqual, EcoDeathSlightDisadvantage, EcoDeathDisadvantage,
     EcoDeathPistolVsRifle]"

text \<open>A list whose every element is strictly greater than its successor.\<close>

fun strictlyDecreasing :: "real list \<Rightarrow> bool" where
  "strictlyDecreasing (x # y # rest) = (y < x \<and> strictlyDecreasing (y # rest))"
| "strictlyDecreasing _ = True"

definition MinRating :: real where "MinRating = 0.20"
definition MaxRating :: real where "MaxRating = 3.00"

definition TradeWindowTicks :: int where "TradeWindowTicks = 320"

definition FirstHalfPistolRound :: int where "FirstHalfPistolRound = 1"
definition SecondHalfPistolRound :: int where "SecondHalfPistolRound = 13"
definition RoundsPerHalf :: int where "RoundsPerHalf = 12"
definition RegulationRounds :: int where "RegulationRounds = 24"
definition OvertimeLength :: int where "OvertimeLength = 6"
definition TickRate :: int where "TickRate = 64"

text \<open>
  \<open>IsPistolRound\<close>.  The constants are converted to \<open>int\<close> where they meet
  \<open>roundNumber\<close>; the subtraction wraps like any other, and \<open>&&\<close> is the conjunction
  (its right operand has no effect of its own).
\<close>

definition IsPistolRound :: "goint \<Rightarrow> bool" where
  "IsPistolRound roundNumber =
     (if roundNumber = word_of_int FirstHalfPistolRound
         \<or> roundNumber = word_of_int SecondHalfPistolRound then True
      else if sint (word_of_int RegulationRounds :: goint) < sint roundNumber
         \<and> go_rem (roundNumber - word_of_int RegulationRounds - 1) (word_of_int OvertimeLength) = 0
      then True
      else False)"

section \<open>sumMulti\<close>

text \<open>
  A \<open>[6]int\<close> array is a list of six words.  The loop \<open>for i := 2; i <= 5; i++\<close> is
  the recursion below, with \<open>tot\<close> for the variable \<open>total\<close>; both rating files share it and differ in the weight table only.
\<close>

function sumMulti_loop :: "goint list \<Rightarrow> goint list \<Rightarrow> nat \<Rightarrow> goint \<Rightarrow> goint" where
  "sumMulti_loop m weights i tot =
     (if i \<le> 5 then sumMulti_loop m weights (i + 1) (tot + m ! i * weights ! i) else tot)"
  by pat_completeness auto
termination
  by (relation "measure (\<lambda>(m, weights, i, tot). 6 - i)") auto

text \<open>\<open>sumMulti\<close> of rating/rating.go.\<close>

definition sumMulti :: "goint list \<Rightarrow> goint" where
  "sumMulti m = sumMulti_loop m [0, 0, 1, 3, 7, 15] 2 0"

text \<open>\<open>sumMulti\<close> of the second rating file (the linear formula).\<close>

definition sumMulti_lin :: "goint list \<Rightarrow> goint" where
  "sumMulti_lin m = sumMulti_loop m [0, 0, 2, 6, 14, 30] 2 0"

section \<open>float64\<close>

text \<open>
  A \<open>float64\<close> is a finite number, one of the two infinities, or NaN.  Finite
  arithmetic is exact: rounding, overflow of finite results and the sign of zero are not
  part of this model.  What is kept is what decides the control flow and the clamps of the
  rating code: NaN propagates through arithmetic, every comparison with NaN is false, and
  \<open>math.Max\<close>, \<open>math.Min\<close> and \<open>math.Pow\<close> have the special cases of their
  documentation.
\<close>

datatype f64 = Fin real | PInf | NInf | NaN

instantiation f64 :: "{uminus, plus, minus, times, inverse, ord}"
begin

fun uminus_f64 :: "f64 \<Rightarrow> f64" where
  "uminus_f64 (Fin a) = Fin (- a)"
| "uminus_f64 PInf = NInf"
| "uminus_f64 NInf = PInf"
| "uminus_f64 NaN = NaN"

fun plus_f64 :: "f64 \<Rightarrow> f64 \<Rightarrow> f64" where
  "plus_f64 NaN y = NaN"
| "plus_f64 x NaN = NaN"
| "plus_f64 (Fin a) (Fin b) = Fin (a + b)"
| "plus_f64 PInf NInf = NaN"
| "plus_f64 NInf PInf = NaN"
| "plus_f64 PInf y = PInf"
| "plus_f64 x PInf = PInf"
| "plus_f64 NInf y = NInf"
| "plus_f64 x NInf = NInf"

definition minus_f64 :: "f64 \<Rightarrow> f64 \<Rightarrow> f64" where
  "minus_f64 x y = x + (- y)"

fun times_f64 :: "f64 \<Rightarrow> f64 \<Rightarrow> f64" where
  "times_f64 NaN y = NaN"
| "times_f64 x NaN = NaN"
| "times_f64 (Fin a) (Fin b) = Fin (a * b)"
| "times_f64 PInf (Fin b) = (if b = 0 then NaN else if 0 < b then PInf else NInf)"
| "times_f64 NInf (Fin b) = (if b = 0 then NaN else if 0 < b then NInf else PInf)"
| "times_f64 (Fin a) PInf = (if a = 0 then NaN else if 0 < a then PInf else NInf)"
| "times_f64 (Fin a) NInf = (if a = 0 then NaN else if 0 < a then NInf else PInf)"
| "times_f64 PInf PInf = PInf"
| "times_f64 NInf NInf = PInf"
| "times_f64 PInf NInf = NInf"
| "times_f64 NInf PInf = NInf"

fun divide_f64 :: "f64 \<Rightarrow> f64 \<Rightarrow> f64" where
  "divide_f64 NaN y = NaN"
| "divide_f64 x NaN = NaN"
| "divide_f64 (Fin a) (Fin b) =
     (if b = 0 then (if a = 0 then NaN else if 0 < a then PInf else NInf) else Fin (a / b))"
| "divide_f64 (Fin a) PInf = Fin 0"
| "divide_f64 (Fin a) NInf = Fin 0"
| "divide_f64 PInf (Fin b) = (if 0 \<le> b then PInf else NInf)"
| "divide_f64 NInf (Fin b) = (if 0 \<le> b then NInf else PInf)"
| "divide_f64 x y = NaN"

definition inverse_f64 :: "f64 \<Rightarrow> f64" where
  "inverse_f64 x = Fin 1 div x"

fun less_eq_f64 :: "f64 \<Rightarrow> f64 \<Rightarrow> bool" where
  "less_eq_f64 NaN y = False"
| "less_eq_f64 x NaN = False"
| "less_eq_f64 (Fin a) (Fin b) = (a \<le> b)"
| "less_eq_f64 NInf y = True"
| "less_eq_f64 x PInf = True"
| "less_eq_f64 x y = False"

fun less_f64 :: "f64 \<Rightarrow> f64 \<Rightarrow> bool" where
  "less_f64 NaN y = False"
| "less_f64 x NaN = False"
| "less_f64 (Fin a) (Fin b) = (a < b)"
| "less_f64 PInf y = False"
| "less_f64 x NInf = False"
| "less_f64 x y = True"

instance ..

end

text \<open>\<open>==\<close> on floats: false as soon as one side is NaN.\<close>

definition feq :: "f64 \<Rightarrow> f64 \<Rightarrow> bool" where
  "feq x y = (x \<noteq> NaN \<and> y \<noteq> NaN \<and> x = y)"

text \<open>The conversion \<open>float64(n)\<close> of an \<open>int\<close>.\<close>

definition float64 :: "goint \<Rightarrow> f64" where
  "float64 n = Fin (real_of_int (sint n))"

text \<open>
  \<open>math.Max\<close> and \<open>math.Min\<close>: an infinity of the right sign wins even over NaN,
  otherwise NaN propagates.
\<close>

fun math_Max :: "f64 \<Rightarrow> f64 \<Rightarrow> f64" where
  "math_Max PInf y = PInf"
| "math_Max x PInf = PInf"
| "math_Max NaN y = NaN"
| "math_Max x NaN = NaN"
| "math_Max NInf y = y"
| "math_Max x NInf = x"
| "math_Max (Fin a) (Fin b) = Fin (max a b)"

fun math_Min :: "f64 \<Rightarrow> f64 \<Rightarrow> f64" where
  "math_Min NInf y = NInf"
| "math_Min x NInf = NInf"
| "math_Min NaN y = NaN"
| "math_Min x NaN = NaN"
| "math_Min PInf y = y"
| "math_Min x PInf = x"
| "math_Min (Fin a) (Fin b) = Fin (min a b)"

text \<open>
  \<open>math.Pow(x, y)\<close> for a finite exponent \<open>y\<close> (every call of the rating code passes a
  numeric literal).  In the order of the documentation: \<open>Pow(x, 0) = 1\<close>,
  \<open>Pow(1, y) = 1\<close>, \<open>Pow(x, 1) = x\<close>, \<open>Pow(NaN, y) = NaN\<close>, the zero and infinite
  bases, and NaN for a negative finite base with a fractional exponent.
\<close>

definition isOddInt :: "real \<Rightarrow> bool" where
  "isOddInt y = (real_of_int \<lfloor>y\<rfloor> = y \<and> odd \<lfloor>y\<rfloor>)"

definition math_Pow :: "f64 \<Rightarrow> real \<Rightarrow> f64" where
  "math_Pow x y =
     (if y = 0 then Fin 1
      else if x = Fin 1 then Fin 1
      else if y = 1 then x
      else case x of
        NaN \<Rightarrow> NaN
      | PInf \<Rightarrow> (if 0 < y then PInf else Fin 0)
      | NInf \<Rightarrow> (if 0 < y then (if isOddInt y then NInf else PInf) else Fin 0)
      | Fin a \<Rightarrow>
          (if a = 0 then (if y < 0 then PInf else Fin 0)
           else if 0 < a then Fin (a powr y)
           else if real_of_int \<lfloor>y\<rfloor> = y then Fin (a powi \<lfloor>y\<rfloor>)
           else NaN))"

section \<open>model.PlayerStats\<close>

text \<open>
  The fields of \<open>PlayerStats\<close> that the two rating files read, with the types their use
  fixes (\<open>int\<close> where the code converts with \<open>float64(...)\<close>, \<open>float64\<close> where it
  divides the field directly, \<open>[6]int\<close> where it is passed to \<open>sumMulti\<close>).
\<close>

record PlayerStats =
  RoundsPlayed :: goint
  Kills :: goint
  Deaths :: goint
  Damage :: goint
  OpeningKills :: goint
  TradedDeaths :: goint
  MultiKills :: "goint list"
  MultiKillsRaw :: "goint list"
  RoundsWithMultiKill :: goint
  KAST :: f64
  EcoKillValue :: f64
  RoundSwing :: f64
  ClutchRounds :: goint
  ClutchWins :: goint
  OpeningAttempts :: goint
  OpeningSuccesses :: goint
  RoundsWonAfterOpening :: goint
  TradeKills :: goint
  SavedTeammate :: goint
  UtilityDamage :: goint
  FlashAssists :: goint
  EnemyFlashDuration :: f64
  AWPDeathsNoKill :: goint

section \<open>rating/rating.go\<close>

text \<open>
  The component weights and the baselines of the newer components are constants of the
  package that rating.go names and the constants file at hand does not define.  They are
  parameters of the model: one record of finite numbers, passed to both entry points.
\<close>

record RatingConstants =
  WeightKillRating :: real
  WeightDeathRating :: real
  WeightADRRating :: real
  WeightSwingRating :: real
  WeightMultiKillRating :: real
  WeightKASTRating :: real
  WeightOpeningRating :: real
  WeightTradeRating :: real
  WeightUtilityRating :: real
  BaselineMultiKill :: real
  BaselineOpeningSuccessRate :: real
  BaselineTradeKillsPerRound :: real
  BaselineUtilityDamage :: real
  BaselineFlashAssists :: real
  BaselineEnemyFlashDur :: real

definition ComputeFinalRating :: "RatingConstants \<Rightarrow> PlayerStats \<Rightarrow> f64" where
  "ComputeFinalRating c p =
    (let rounds = float64 (RoundsPlayed p) in
     if feq rounds (Fin 0) then Fin 0
     else
     let ecoKPR = EcoKillValue p / rounds;
         killRatio = ecoKPR / Fin BaselineKPR;
         killRating =
           (if Fin 1.5 \<le> killRatio then Fin 1.0 + (killRatio - Fin 1.0) * Fin 1.3
            else if Fin 1.2 \<le> killRatio then Fin 1.0 + (killRatio - Fin 1.0) * Fin 0.7
            else if Fin 0.8 \<le> killRatio then math_Pow killRatio 0.9
            else math_Pow killRatio 1.1);
         dpr = float64 (Deaths p) / rounds;
         deathRatio = dpr / Fin BaselineDPR;
         deathRating0 =
           (if deathRatio \<le> Fin 0.5 then Fin 2.0 - (deathRatio * Fin 0.2)
            else if deathRatio \<le> Fin 0.8 then Fin 1.7 - (deathRatio * Fin 0.4)
            else if deathRatio \<le> Fin 1.0 then Fin 1.4 - (deathRatio * Fin 0.3)
            else if deathRatio \<le> Fin 1.3 then Fin 1.0 / math_Pow deathRatio 1.0
            else Fin 1.0 / math_Pow deathRatio 1.2);
         deathRating = math_Max (Fin 0.3) (math_Min (Fin 1.9) deathRating0);
         adr = float64 (Damage p) / rounds;
         adrRatio = adr / Fin BaselineADR;
         adrRating =
           (if Fin 1.4 \<le> adrRatio then Fin 0.8 + (adrRatio * Fin 0.6)
            else if Fin 1.0 \<le> adrRatio then Fin 0.7 + (adrRatio * Fin 0.5)
            else if Fin 0.8 \<le> adrRatio then Fin 0.4 + (adrRatio * Fin 0.6)
            else Fin 0.3 + (adrRatio * Fin 0.5));
         avgSwing = RoundSwing p / rounds;
         swingRating0 =
           (if Fin 0.05 \<le> avgSwing then Fin 1.0 + (avgSwing / Fin 0.15) * Fin 0.4
            else if Fin 0 \<le> avgSwing then Fin 1.0 + (avgSwing / Fin 0.10) * Fin 0.2
            else Fin 1.0 + (avgSwing / Fin 0.10) * Fin 0.3);
         swingRating = math_Max (Fin 0.6) (math_Min (Fin 1.4) swingRating0);
         multiKillBonus = float64 (sumMulti (MultiKills p)) / rounds;
         multiKillRating0 =
           math_Min (math_Pow (multiKillBonus / Fin (BaselineMultiKill c)) 0.8) (Fin 2.0);
         overallPerformance =
           (ecoKPR / Fin BaselineKPR + (adr / Fin BaselineADR) + KAST p / Fin BaselineKAST)
             / Fin 3.0;
         multiKillRating =
           (if Fin 1.0 < multiKillRating0
            then let penaltyFactor = math_Pow (math_Min (Fin 1.0) overallPerformance) 2
                 in Fin 1.0 + (multiKillRating0 - Fin 1.0) * penaltyFactor
            else multiKillRating0);
         kastRatio = KAST p / Fin BaselineKAST;
         kastRating =
           (if Fin 1.2 \<le> kastRatio then Fin 1.0 + (kastRatio - Fin 1.0) * Fin 0.6
            else if Fin 0.9 \<le> kastRatio then kastRatio
            else math_Pow kastRatio 1.2);
         openingRating =
           (if 0 < sint (OpeningAttempts p)
            then let successRate = float64 (OpeningSuccesses p) / float64 (OpeningAttempts p);
                     successRatio = successRate / Fin (BaselineOpeningSuccessRate c);
                     winConversion =
                       (if 0 < sint (OpeningSuccesses p)
                        then float64 (RoundsWonAfterOpening p) / float64 (OpeningSuccesses p)
                        else Fin 0.0);
                     openingRating0 = successRatio * Fin 0.7 + winConversion * Fin 0.6
                 in math_Max (Fin 0.5) (math_Min (Fin 1.6) openingRating0)
            else Fin 1.0);
         tradeKillsPerRound = float64 (TradeKills p) / rounds;
         tradeKillRatio = tradeKillsPerRound / Fin (BaselineTradeKillsPerRound c);
         tradeRating1 = Fin 1.0 + (tradeKillRatio - Fin 1.0) * Fin 0.3;
         tradeRating2 =
           (if 0 < sint (Deaths p)
            then let tradedPct = float64 (TradedDeaths p) / float64 (Deaths p)
                 in tradeRating1 + tradedPct * Fin 0.2
            else tradeRating1);
         savesPerRound = float64 (SavedTeammate p) / rounds;
         tradeRating3 = tradeRating2 + savesPerRound * Fin 1.5;
         tradeRating = math_Max (Fin 0.6) (math_Min (Fin 1.5) tradeRating3);
         utilDmgPerRound = float64 (UtilityDamage p) / rounds;
         utilDmgRatio = utilDmgPerRound / Fin (BaselineUtilityDamage c);
         flashAssistsPerRound = float64 (FlashAssists p) / rounds;
         flashAssistRatio = flashAssistsPerRound / Fin (BaselineFlashAssists c);
         enemyFlashPerRound = EnemyFlashDuration p / rounds;
         enemyFlashRatio = enemyFlashPerRound / Fin (BaselineEnemyFlashDur c);
         utilityScore =
           utilDmgRatio * Fin 0.4 + flashAssistRatio * Fin 0.3 + enemyFlashRatio * Fin 0.3;
         utilityRating0 = Fin 0.7 + utilityScore * Fin 0.3;
         utilityRating = math_Max (Fin 0.5) (math_Min (Fin 1.4) utilityRating0);
         clutchModifier =
           (if 0 < sint (ClutchRounds p)
            then let clutchWinRate = float64 (ClutchWins p) / float64 (ClutchRounds p)
                 in if clutchWinRate < Fin 0.3
                    then (- float64 (ClutchRounds p)) * (Fin 0.3 - clutchWinRate) * Fin 0.04
                    else float64 (ClutchWins p) * Fin 0.015
            else Fin 0.0);
         awpPenalty =
           (if 0 < sint (AWPDeathsNoKill p)
            then float64 (AWPDeathsNoKill p) / rounds * Fin 0.12
            else Fin 0.0);
         rating = killRating * Fin (WeightKillRating c) +
                  deathRating * Fin (WeightDeathRating c) +
                  adrRating * Fin (WeightADRRating c) +
                  swingRating * Fin (WeightSwingRating c) +
                  multiKillRating * Fin (WeightMultiKillRating c) +
                  kastRating * Fin (WeightKASTRating c) +
                  openingRating * Fin (WeightOpeningRating c) +
                  tradeRating * Fin (WeightTradeRating c) +
                  utilityRating * Fin (WeightUtilityRating c) +
                  clutchModifier -
                  awpPenalty
     in math_Max (Fin MinRating) (math_Min (Fin MaxRating) rating))"

definition ComputeSideRating :: "RatingConstants \<Rightarrow> goint \<Rightarrow> goint \<Rightarrow> goint \<Rightarrow> goint \<Rightarrow> f64
    \<Rightarrow> f64 \<Rightarrow> f64 \<Rightarrow> goint list \<Rightarrow> goint \<Rightarrow> goint \<Rightarrow> f64" where
  "ComputeSideRating c rounds kills deaths damage ecoKillValue roundSwing kast multiKills
       clutchRounds clutchWins =
    (let roundsF = float64 rounds in
     if feq roundsF (Fin 0) then Fin 0
     else
     let ecoKPR = ecoKillValue / roundsF;
         killRatio = ecoKPR / Fin BaselineKPR;
         killRating =
           (if Fin 1.5 \<le> killRatio then Fin 1.0 + (killRatio - Fin 1.0) * Fin 1.3
            else if Fin 1.2 \<le> killRatio then Fin 1.0 + (killRatio - Fin 1.0) * Fin 0.7
            else if Fin 0.8 \<le> killRatio then math_Pow killRatio 0.9
            else math_Pow killRatio 1.1);
         dpr = float64 deaths / roundsF;
         deathRatio = dpr / Fin BaselineDPR;
         deathRating0 =
           (if deathRatio \<le> Fin 0.5 then Fin 2.0 - (deathRatio * Fin 0.2)
            else if deathRatio \<le> Fin 0.8 then Fin 1.7 - (deathRatio * Fin 0.4)
            else if deathRatio \<le> Fin 1.0 then Fin 1.4 - (deathRatio * Fin 0.3)
            else if deathRatio \<le> Fin 1.3 then Fin 1.0 / math_Pow deathRatio 1.0
            else Fin 1.0 / math_Pow deathRatio 1.2);
         deathRating = math_Max (Fin 0.3) (math_Min (Fin 1.9) deathRating0);
         adr = float64 damage / roundsF;
         adrRatio = adr / Fin BaselineADR;
         adrRating =
           (if Fin 1.4 \<le> adrRatio then Fin 0.8 + (adrRatio * Fin 0.6)
            else if Fin 1.0 \<le> adrRatio then Fin 0.7 + (adrRatio * Fin 0.5)
            else if Fin 0.8 \<le> adrRatio then Fin 0.4 + (adrRatio * Fin 0.6)
            else Fin 0.3 + (adrRatio * Fin 0.5));
         avgSwing = roundSwing / roundsF;
         swingRating0 =
           (if Fin 0.05 \<le> avgSwing then Fin 1.0 + (avgSwing / Fin 0.15) * Fin 0.4
            else if Fin 0 \<le> avgSwing then Fin 1.0 + (avgSwing / Fin 0.10) * Fin 0.2
            else Fin 1.0 + (avgSwing / Fin 0.10) * Fin 0.3);
         swingRating = math_Max (Fin 0.6) (math_Min (Fin 1.4) swingRating0);
         multiKillBonus = float64 (sumMulti multiKills) / roundsF;
         multiKillRating0 =
           math_Min (math_Pow (multiKillBonus / Fin (BaselineMultiKill c)) 0.8) (Fin 2.0);
         kastPct = kast / roundsF;
         overallPerformance =
           (ecoKPR / Fin BaselineKPR + (adr / Fin BaselineADR) + kastPct / Fin BaselineKAST)
             / Fin 3.0;
         multiKillRating =
           (if Fin 1.0 < multiKillRating0
            then let penaltyFactor = math_Pow (math_Min (Fin 1.0) overallPerformance) 2
                 in Fin 1.0 + (multiKillRating0 - Fin 1.0) * penaltyFactor
            else multiKillRating0);
         kastRatio = kastPct / Fin BaselineKAST;
         kastRating =
           (if Fin 1.2 \<le> kastRatio then Fin 1.0 + (kastRatio - Fin 1.0) * Fin 0.6
            else if Fin 0.9 \<le> kastRatio then kastRatio
            else math_Pow kastRatio 1.2);
         clutchModifier =
           (if 0 < sint clutchRounds
            then let clutchWinRate = float64 clutchWins / float64 clutchRounds
                 in if clutchWinRate < Fin 0.3
                    then (- float64 clutchRounds) * (Fin 0.3 - clutchWinRate) * Fin 0.04
                    else float64 clutchWins * Fin 0.015
            else Fin 0.0);
         rating = killRating * Fin 0.32 +
                  deathRating * Fin 0.18 +
                  adrRating * Fin 0.20 +
                  swingRating * Fin 0.12 +
                  multiKillRating * Fin 0.12 +
                  kastRating * Fin 0.06 +
                  clutchModifier
     in math_Max (Fin MinRating) (math_Min (Fin MaxRating) rating))"

section \<open>The second rating file (linear formula)\<close>

definition ComputeFinalRating_lin :: "PlayerStats \<Rightarrow> f64" where
  "ComputeFinalRating_lin p =
    (let rounds = float64 (RoundsPlayed p) in
     if feq rounds (Fin 0) then Fin 0
     else
     let kpr = float64 (Kills p) / rounds;
         dpr = float64 (Deaths p) / rounds;
         adr = float64 (Damage p) / rounds;
         kast = KAST p;
         avgSwing = RoundSwing p / rounds;
         openingKillsPerRound = float64 (OpeningKills p) / rounds;
         multiKillRoundsPerRound = float64 (RoundsWithMultiKill p) / rounds;
         kprContrib =
           (if Fin 0.7 \<le> kpr then (kpr - Fin 0.7) * Fin 0.75 else (kpr - Fin 0.7) * Fin 0.55);
         dprContrib =
           (if dpr \<le> Fin 0.7 then (Fin 0.7 - dpr) * Fin 0.15 else (Fin 0.7 - dpr) * Fin 0.55);
         adrContrib =
           (if Fin 75.0 \<le> adr then (adr - Fin 75.0) * Fin 0.015
            else (adr - Fin 75.0) * Fin 0.004);
         kastContrib =
           (if Fin 0.70 \<le> kast then (kast - Fin 0.70) * Fin 0.20
            else (kast - Fin 0.70) * Fin 0.35);
         swingContrib =
           (if Fin 0 \<le> avgSwing then avgSwing * Fin 0.75 else avgSwing * Fin 1.00);
         impactContrib = openingKillsPerRound * Fin 0.3 + multiKillRoundsPerRound * Fin 0.15;
         multiKillBonus = float64 (sumMulti_lin (MultiKillsRaw p)) / rounds;
         multiContrib = multiKillBonus * Fin 0.015;
         rating = Fin 1.0 + kprContrib + dprContrib + adrContrib + kastContrib + swingContrib
                    + impactContrib + multiContrib
     in math_Max (Fin MinRating) (math_Min (Fin MaxRating) rating))"

definition ComputeSideRating_lin :: "goint \<Rightarrow> goint \<Rightarrow> goint \<Rightarrow> goint \<Rightarrow> f64
    \<Rightarrow> f64 \<Rightarrow> f64 \<Rightarrow> goint list \<Rightarrow> goint \<Rightarrow> goint \<Rightarrow> f64" where
  "ComputeSideRating_lin rounds kills deaths damage ecoKillValue roundSwing kast multiKills
       clutchRounds clutchWins =
    (let roundsF = float64 rounds in
     if feq roundsF (Fin 0) then Fin 0
     else
     let kpr = float64 kills / roundsF;
         dpr = float64 deaths / roundsF;
         adr = float64 damage / roundsF;
         kastPct = kast / roundsF;
         avgSwing = roundSwing / roundsF;
         kprContrib =
           (if Fin 0.7 \<le> kpr then (kpr - Fin 0.7) * Fin 0.75 else (kpr - Fin 0.7) * Fin 0.55);
         dprContrib =
           (if dpr \<le> Fin 0.7 then (Fin 0.7 - dpr) * Fin 0.15 else (Fin 0.7 - dpr) * Fin 0.55);
         adrContrib =
           (if Fin 75.0 \<le> adr then (adr - Fin 75.0) * Fin 0.015
            else (adr - Fin 75.0) * Fin 0.004);
         kastContrib =
           (if Fin 0.70 \<le> kastPct then (kastPct - Fin 0.70) * Fin 0.20
            else (kastPct - Fin 0.70) * Fin 0.35);
         swingContrib =
           (if Fin 0 \<le> avgSwing then avgSwing * Fin 0.75 else avgSwing * Fin 1.00);
         multiKillBonus = float64 (sumMulti_lin multiKills) / roundsF;
         multiContrib = multiKillBonus * Fin 0.015;
         rating = Fin 1.0 + kprContrib + dprContrib + adrContrib + kastContrib + swingContrib
                    + multiContrib
     in math_Max (Fin MinRating) (math_Min (Fin MaxRating) rating))"

section \<open>Vocabulary of the rating properties\<close>

text \<open>A result inside the clamp range \<open>[MinRating, MaxRating]\<close>.\<close>

definition inRatingRange :: "f64 \<Rightarrow> bool" where
  "inRatingRange r = (case r of Fin x \<Rightarrow> MinRating \<le> x \<and> x \<le> MaxRating | _ \<Rightarrow> False)"

text \<open>The zero value of the struct: what Go gives a \<open>PlayerStats\<close> nobody has written to.\<close>

definition zeroStats :: PlayerStats where
  "zeroStats = \<lparr>RoundsPlayed = 0, Kills = 0, Deaths = 0, Damage = 0, OpeningKills = 0,
     TradedDeaths = 0, MultiKills = [0, 0, 0, 0, 0, 0], MultiKillsRaw = [0, 0, 0, 0, 0, 0],
     RoundsWithMultiKill = 0, KAST = Fin 0, EcoKillValue = Fin 0, RoundSwing = Fin 0,
     ClutchRounds = 0, ClutchWins = 0, OpeningAttempts = 0, OpeningSuccesses = 0,
     RoundsWonAfterOpening = 0, TradeKills = 0, SavedTeammate = 0, UtilityDamage = 0,
     FlashAssists = 0, EnemyFlashDuration = Fin 0, AWPDeathsNoKill = 0\<rparr>"

text \<open>
  The player record that carries the arguments of \<open>ComputeSideRating\<close>: the side's counters
  in the fields of the same name, the KAST fraction \<open>kast / rounds\<close> that the side formula
  derives from its KAST count, and the zero value in every field that is not tracked per
  side (no opening attempt, no AWP death).
\<close>

definition sideRecord :: "goint \<Rightarrow> goint \<Rightarrow> goint \<Rightarrow> goint \<Rightarrow> f64 \<Rightarrow> f64 \<Rightarrow> f64
    \<Rightarrow> goint list \<Rightarrow> goint \<Rightarrow> goint \<Rightarrow> PlayerStats" where
  "sideRecord rounds kills deaths damage ecoKillValue roundSwing kast multiKills
       clutchRounds clutchWins =
     zeroStats\<lparr>RoundsPlayed := rounds, Kills := kills, Deaths := deaths, Damage := damage,
       EcoKillValue := ecoKillValue, RoundSwing := roundSwing, KAST := kast / float64 rounds,
       MultiKills := multiKills, MultiKillsRaw := multiKills,
       ClutchRounds := clutchRounds, ClutchWins := clutchWins\<rparr>"

text \<open>
  The weights that \<open>ComputeSideRating\<close> writes as literals (``Redistributed: Kill 32\%,
  Death 18\%, ADR 20\%, Swing 12\%, Multi 12\%, KAST 6\%''), with no weight left for the
  opening, trade and utility components.
\<close>

definition sideWeights :: "RatingConstants \<Rightarrow> RatingConstants" where
  "sideWeights c = c\<lparr>WeightKillRating := 0.32, WeightDeathRating := 0.18,
     WeightADRRating := 0.20, WeightSwingRating := 0.12, WeightMultiKillRating := 0.12,
     WeightKASTRating := 0.06, WeightOpeningRating := 0, WeightTradeRating := 0,
     WeightUtilityRating := 0\<rparr>"

text \<open>
  One assignment of the package constants, for evaluating \<open>ComputeFinalRating\<close> at concrete
  inputs.  The nine weights are the percentages that the comments of rating.go give for the
  components (28, 16, 18, 10, 10, 6, 6, 4, 2), the opening baseline is the ``50\% success
  rate'' of its comment; the source documents no value for the other five baselines, which
  are set to 1 here.
\<close>

definition documentedConstants :: RatingConstants where
  "documentedConstants = \<lparr>WeightKillRating = 0.28, WeightDeathRating = 0.16,
     WeightADRRating = 0.18, WeightSwingRating = 0.10, WeightMultiKillRating = 0.10,
     WeightKASTRating = 0.06, WeightOpeningRating = 0.06, WeightTradeRating = 0.04,
     WeightUtilityRating = 0.02, BaselineMultiKill = 1, BaselineOpeningSuccessRate = 0.5,
     BaselineTradeKillsPerRound = 1, BaselineUtilityDamage = 1, BaselineFlashAssists = 1,
     BaselineEnemyFlashDur = 1\<rparr>"

section \<open>Derived per-round rates\<close>

text \<open>The rates that are reported for a player once all rounds are processed.\<close>

record DerivedRates =
  ADR :: f64
  KPR :: f64
  DPR :: f64
  KASTRate :: f64
  SwingPerRound :: f64

text \<open>
  Modelled from the spec: the derivation of the per-round rates of a player
  (\<open>computeDerivedStats\<close> of parser/parser.go, which the repository's guide quotes with the
  guard \<open>if p.RoundsPlayed > 0\<close>) is not among the sources at hand.  The specification
  says: the rates are kills, deaths and damage per round, the KAST fraction and the average
  swing per round; ``every rate field (ADR, KPR, DPR, KAST, per-round swing) is defined
  only when rounds-played > 0; otherwise it is reported as zero, never divided''.  The
  arguments are the record with its counters and the number of rounds that count for KAST.
\<close>

definition computeDerivedStats :: "PlayerStats \<Rightarrow> goint \<Rightarrow> DerivedRates" where
  "computeDerivedStats p kastRounds =
     (if 0 < sint (RoundsPlayed p)
      then let rounds = float64 (RoundsPlayed p)
           in \<lparr>ADR = float64 (Damage p) / rounds,
               KPR = float64 (Kills p) / rounds,
               DPR = float64 (Deaths p) / rounds,
               KASTRate = float64 kastRounds / rounds,
               SwingPerRound = RoundSwing p / rounds\<rparr>
      else \<lparr>ADR = Fin 0, KPR = Fin 0, DPR = Fin 0, KASTRate = Fin 0,
             SwingPerRound = Fin 0\<rparr>)"

text \<open>A float that is neither an infinity nor NaN: what a division by zero never gives.\<close>

definition isFinite :: "f64 \<Rightarrow> bool" where
  "isFinite r = (case r of Fin x \<Rightarrow> True | _ \<Rightarrow> False)"

section \<open>Facts about the loops and the machine types\<close>

lemma firstOccurrences_set: "set (firstOccurrences xs) = set xs"
  by (induction xs rule: firstOccurrences.induct) auto

lemma firstOccurrences_distinct: "distinct (firstOccurrences xs)"
  by (induction xs rule: firstOccurrences.induct) (auto simp: firstOccurrences_set)

text \<open>
  The loop of \<open>RecordKill\<close>, for any value of its accumulators: it appends the first
  occurrences of the ids that are neither the killer nor marked in \<open>seen\<close>.
\<close>

lemma RecordKill_loop_eq:
  "RecordKill_loop k slots bens seen =
     bens @ firstOccurrences (filter (\<lambda>p. p \<noteq> k \<and> \<not> seen p) (map PlayerID slots))"
proof (induction slots arbitrary: bens seen)
  case Nil
  then show ?case by simp
next
  case (Cons slot rest)
  have "filter (\<lambda>y. y \<noteq> PlayerID slot)
          (filter (\<lambda>p. p \<noteq> k \<and> \<not> seen p) (map PlayerID rest))
        = filter (\<lambda>p. p \<noteq> k \<and> \<not> (seen(PlayerID slot := True)) p) (map PlayerID rest)"
    by (auto intro: filter_cong)
  with Cons show ?case by simp
qed

lemma RecordKill_fst: "fst (RecordKill tk k s) = beneficiaries_spec (getSlots tk s) k"
  by (simp add: RecordKill_def Let_def RecordKill_loop_eq beneficiaries_spec_def)

lemma RecordKill_getSlots:
  "getSlots (snd (RecordKill tk k s)) s = getSlots tk s @ [\<lparr>PlayerID = k, Side = s\<rparr>]"
  by (simp add: RecordKill_def Let_def addSlot_def getSlots_def)

lemma RecordKill_otherSlots: "otherSlots (snd (RecordKill tk k s)) s = otherSlots tk s"
  by (simp add: RecordKill_def Let_def addSlot_def otherSlots_def)

lemma removePlayerSlots_loop_eq:
  "removePlayerSlots_loop v slots filtered = filtered @ filter (\<lambda>x. PlayerID x \<noteq> v) slots"
  by (induction slots arbitrary: filtered) auto

lemma RecordDeath_getSlots:
  "getSlots (RecordDeath tk v s) s = filter (\<lambda>x. PlayerID x \<noteq> v) (drop 1 (getSlots tk s))"
  by (simp add: RecordDeath_def Let_def removePlayerSlots_def removePlayerSlots_loop_eq
      setSlots_def getSlots_def)

lemma RecordDeath_otherSlots: "otherSlots (RecordDeath tk v s) s = otherSlots tk s"
  by (simp add: RecordDeath_def Let_def removePlayerSlots_def setSlots_def otherSlots_def)

lemma word_eq_iff_sint: "(n :: goint) = m \<longleftrightarrow> sint n = sint m"
  by (auto intro: signed_word_eqI)

text \<open>Past round 24 the subtraction of \<open>IsPistolRound\<close> does not wrap.\<close>

lemma sint_sub25:
  assumes "24 < sint (n :: goint)"
  shows "sint (n - 25) = sint n - 25"
proof -
  have ub: "sint n < 2 ^ 63" using sint_lt [of n] by simp
  have "sint (n - 25) = signed_take_bit 63 (sint n - 25)"
    by (simp add: sint_word_ariths)
  moreover have "signed_take_bit 63 (sint n - 25) = sint n - 25"
    using assms ub by (simp add: signed_take_bit_int_eq_self)
  ultimately show ?thesis by simp
qed

lemma go_rem_6_zero:
  assumes "0 \<le> sint (x :: goint)"
  shows "go_rem x 6 = 0 \<longleftrightarrow> sint x mod 6 = 0"
proof -
  have s6: "sint (6 :: goint) = 6" by simp
  have sm: "sint x smod 6 = sint x mod 6"
    using assms by (simp add: smod_int_alt_def sgn_if)
  have rng: "0 \<le> sint x mod 6" "sint x mod 6 < 6" by simp_all
  have "(word_of_int (sint x mod 6) :: goint) = 0 \<longleftrightarrow> sint x mod 6 = 0"
  proof
    assume "(word_of_int (sint x mod 6) :: goint) = 0"
    then have "(2 ^ 64 :: int) dvd sint x mod 6"
      by (simp add: word_of_int_eq_0_iff)
    show "sint x mod 6 = 0"
    proof (rule ccontr)
      assume "sint x mod 6 \<noteq> 0"
      with rng have "0 < sint x mod 6" "sint x mod 6 < 2 ^ 64" by simp_all
      then have "\<not> (2 ^ 64 :: int) dvd sint x mod 6" by (rule zdvd_not_zless)
      with \<open>(2 ^ 64 :: int) dvd sint x mod 6\<close> show False by simp
    qed
  next
    assume "sint x mod 6 = 0"
    then show "(word_of_int (sint x mod 6) :: goint) = 0" by simp
  qed
  then show ?thesis by (simp add: go_rem_def s6 sm)
qed

lemma IsPistolRound_examples:
  "IsPistolRound 1 \<and> IsPistolRound 13 \<and> IsPistolRound 25 \<and> IsPistolRound 31
   \<and> \<not> IsPistolRound 0 \<and> \<not> IsPistolRound 19 \<and> \<not> IsPistolRound 24
   \<and> \<not> IsPistolRound 26 \<and> \<not> IsPistolRound (- 5)"
  by (simp add: IsPistolRound_def FirstHalfPistolRound_def SecondHalfPistolRound_def
      RegulationRounds_def OvertimeLength_def go_rem_def smod_int_alt_def)

text \<open>The four passes of the loop of \<open>sumMulti\<close>, unrolled.\<close>

lemma sumMulti_eq: "sumMulti m = m ! 2 * 1 + m ! 3 * 3 + m ! 4 * 7 + m ! 5 * 15"
  by (simp add: sumMulti_def)

lemma sumMulti_lin_eq: "sumMulti_lin m = m ! 2 * 2 + m ! 3 * 6 + m ! 4 * 14 + m ! 5 * 30"
  by (simp add: sumMulti_lin_def)

lemma sumMulti_update_01: "sumMulti (m[0 := a, Suc 0 := b]) = sumMulti m"
  by (simp add: sumMulti_eq)

lemma sumMulti_lin_update_01: "sumMulti_lin (m[0 := a, Suc 0 := b]) = sumMulti_lin m"
  by (simp add: sumMulti_lin_eq)

section \<open>Facts about float64 and the rating entry points\<close>

lemma feq_float64_zero: "feq (float64 n) (Fin 0) \<longleftrightarrow> n = 0"
  by (simp add: feq_def float64_def signed_eq_0_iff)

lemma plus_Fin_0: "x + Fin 0 = x"
  by (cases x) simp_all

lemma minus_Fin_0: "x - Fin 0 = x"
  by (cases x) (simp_all add: minus_f64_def)

lemma minus_Fin: "Fin a - Fin b = Fin (a - b)"
  by (simp add: minus_f64_def)

lemma float64_0: "float64 0 = Fin 0"
  by (simp add: float64_def)

lemma zero_div_float64: "n \<noteq> 0 \<Longrightarrow> Fin 0 / float64 n = Fin 0"
  by (simp add: float64_def signed_eq_0_iff)

lemma zero_div_float64_pos: "0 < sint n \<Longrightarrow> Fin 0 / float64 n = Fin 0"
  by (rule zero_div_float64) auto

text \<open>The final clamp lets NaN through and bounds everything else.\<close>

lemma clamp_range:
  "math_Max (Fin MinRating) (math_Min (Fin MaxRating) r) = NaN
   \<or> inRatingRange (math_Max (Fin MinRating) (math_Min (Fin MaxRating) r))"
  by (cases r) (simp_all add: inRatingRange_def MinRating_def MaxRating_def)

lemma ComputeFinalRating_zero: "RoundsPlayed p = 0 \<Longrightarrow> ComputeFinalRating c p = Fin 0"
  by (simp add: ComputeFinalRating_def feq_float64_zero)

lemma ComputeFinalRating_lin_zero: "RoundsPlayed p = 0 \<Longrightarrow> ComputeFinalRating_lin p = Fin 0"
  by (simp add: ComputeFinalRating_lin_def feq_float64_zero)

lemma ComputeSideRating_zero:
  "ComputeSideRating c 0 kills deaths damage e s k m cr cw = Fin 0"
  by (simp add: ComputeSideRating_def feq_float64_zero)

lemma ComputeSideRating_lin_zero:
  "ComputeSideRating_lin 0 kills deaths damage e s k m cr cw = Fin 0"
  by (simp add: ComputeSideRating_lin_def feq_float64_zero)

text \<open>The derived rates: zero without rounds, and never the result of a division by zero.\<close>

lemma float64_div_finite: "0 < sint n \<Longrightarrow> isFinite (float64 a / float64 n)"
  by (auto simp: float64_def isFinite_def signed_eq_0_iff)

lemma computeDerivedStats_zero:
  "RoundsPlayed p = 0 \<Longrightarrow>
     computeDerivedStats p kastRounds
       = \<lparr>ADR = Fin 0, KPR = Fin 0, DPR = Fin 0, KASTRate = Fin 0, SwingPerRound = Fin 0\<rparr>"
  by (simp add: computeDerivedStats_def)

lemma computeDerivedStats_finite:
  "isFinite (ADR (computeDerivedStats p kastRounds))
   \<and> isFinite (KPR (computeDerivedStats p kastRounds))
   \<and> isFinite (DPR (computeDerivedStats p kastRounds))
   \<and> isFinite (KASTRate (computeDerivedStats p kastRounds))"
  by (simp add: computeDerivedStats_def Let_def float64_div_finite) (simp add: isFinite_def)

lemma ComputeFinalRating_clamped:
  "RoundsPlayed p \<noteq> 0 \<Longrightarrow>
     ComputeFinalRating c p = NaN \<or> inRatingRange (ComputeFinalRating c p)"
  unfolding ComputeFinalRating_def Let_def
  by (simp only: feq_float64_zero if_False clamp_range)

lemma ComputeFinalRating_lin_clamped:
  "RoundsPlayed p \<noteq> 0 \<Longrightarrow>
     ComputeFinalRating_lin p = NaN \<or> inRatingRange (ComputeFinalRating_lin p)"
  unfolding ComputeFinalRating_lin_def Let_def
  by (simp only: feq_float64_zero if_False clamp_range)

lemma ComputeSideRating_clamped:
  "rounds \<noteq> 0 \<Longrightarrow>
     ComputeSideRating c rounds kills deaths damage e s k m cr cw = NaN
     \<or> inRatingRange (ComputeSideRating c rounds kills deaths damage e s k m cr cw)"
  unfolding ComputeSideRating_def Let_def
  by (simp only: feq_float64_zero if_False clamp_range)

lemma ComputeSideRating_lin_clamped:
  "rounds \<noteq> 0 \<Longrightarrow>
     ComputeSideRating_lin rounds kills deaths damage e s k m cr cw = NaN
     \<or> inRatingRange (ComputeSideRating_lin rounds kills deaths damage e s k m cr cw)"
  unfolding ComputeSideRating_lin_def Let_def
  by (simp only: feq_float64_zero if_False clamp_range)

lemmas rating_consts = BaselineKPR_def BaselineDPR_def BaselineADR_def BaselineKAST_def
  MinRating_def MaxRating_def

text \<open>
  The NaN case of the clamp is met by finite inputs: a negative eco kill value gives a
  negative \<open>killRatio\<close>, \<open>math.Pow\<close> of it with exponent 1.1 is NaN, and NaN passes the
  weighted sum, \<open>math.Min\<close> and \<open>math.Max\<close>.
\<close>

lemma ComputeFinalRating_NaN_example:
  "ComputeFinalRating documentedConstants
     (zeroStats\<lparr>RoundsPlayed := 1, EcoKillValue := Fin (- 1)\<rparr>) = NaN"
  by (simp add: ComputeFinalRating_def Let_def sumMulti_eq float64_def
      math_Pow_def feq_def rating_consts documentedConstants_def minus_f64_def zeroStats_def)

text \<open>
  One side of one round: a single pistol-against-rifle kill (eco value 1.8, written
  \<open>9 / 5\<close>, and 100 damage), no death, a KAST count of 1.
\<close>

lemma side_example_value:
  "ComputeSideRating documentedConstants 1 1 0 100 (Fin (9 / 5)) (Fin 0) (Fin 1)
     [0, 0, 0, 0, 0, 0] 0 0 = Fin (6737 / 3850)"
  by (simp add: ComputeSideRating_def Let_def sumMulti_eq float64_def
      math_Pow_def feq_def rating_consts documentedConstants_def minus_f64_def)

lemma final_example_value:
  "ComputeFinalRating documentedConstants
     (sideRecord 1 1 0 100 (Fin (9 / 5)) (Fin 0) (Fin 1) [0, 0, 0, 0, 0, 0] 0 0)
     = Fin (31741 / 19250)"
  by (simp add: ComputeFinalRating_def Let_def sumMulti_eq float64_def
      math_Pow_def feq_def rating_consts documentedConstants_def minus_f64_def
      sideRecord_def zeroStats_def)

lemma final_neutral_example_value:
  "ComputeFinalRating documentedConstants
     ((sideRecord 1 1 0 100 (Fin (9 / 5)) (Fin 0) (Fin 1) [0, 0, 0, 0, 0, 0] 0 0)
        \<lparr>TradeKills := 1, UtilityDamage := 1, FlashAssists := 1,
         EnemyFlashDuration := Fin 1\<rparr>)
     = Fin (2567 / 1540)"
  by (simp add: ComputeFinalRating_def Let_def sumMulti_eq float64_def
      math_Pow_def feq_def rating_consts documentedConstants_def minus_f64_def
      sideRecord_def zeroStats_def)

lemma ComputeFinalRating_update_01:
  "ComputeFinalRating c (p\<lparr>MultiKills := (MultiKills p)[0 := a, 1 := b]\<rparr>)
     = ComputeFinalRating c p"
  by (simp add: ComputeFinalRating_def sumMulti_update_01 split del: if_split cong: if_cong)

lemma ComputeSideRating_update_01:
  "ComputeSideRating c r k d dm e s ka (m[0 := a, 1 := b]) cr cw
     = ComputeSideRating c r k d dm e s ka m cr cw"
  by (simp add: ComputeSideRating_def sumMulti_update_01 split del: if_split cong: if_cong)

lemma ComputeFinalRating_lin_update_01:
  "ComputeFinalRating_lin (p\<lparr>MultiKillsRaw := (MultiKillsRaw p)[0 := a, 1 := b]\<rparr>)
     = ComputeFinalRating_lin p"
  by (simp add: ComputeFinalRating_lin_def sumMulti_lin_update_01
      split del: if_split cong: if_cong)

lemma ComputeSideRating_lin_update_01:
  "ComputeSideRating_lin r k d dm e s ka (m[0 := a, 1 := b]) cr cw
     = ComputeSideRating_lin r k d dm e s ka m cr cw"
  by (simp add: ComputeSideRating_lin_def sumMulti_lin_update_01
      split del: if_split cong: if_cong)

section \<open>Rating Composer: range of the result (C1) and zero rounds (C4)\<close>

text \<open>
  Claim C1, as amended.  The claim asks for a result in \<open>[MinRating, MaxRating]\<close> for
  every record and every argument list.  The guard \<open>if rounds == 0 { return 0 }\<close> comes
  before the clamp, so with zero rounds the result is 0, below \<open>MinRating\<close>; and the clamp
  \<open>math.Max(MinRating, math.Min(MaxRating, rating))\<close> passes NaN on.  What holds for both
  rating files and both entry points: when the number of rounds is not zero, the result is
  NaN or lies in \<open>[0.20, 3.00]\<close>.
\<close>

theorem rating_in_range_or_NaN:
  assumes "RoundsPlayed p \<noteq> 0" and "rounds \<noteq> 0"
  shows "(ComputeFinalRating c p = NaN \<or> inRatingRange (ComputeFinalRating c p))
    \<and> (ComputeFinalRating_lin p = NaN \<or> inRatingRange (ComputeFinalRating_lin p))
    \<and> (ComputeSideRating c rounds kills deaths damage e s k m cr cw = NaN
        \<or> inRatingRange (ComputeSideRating c rounds kills deaths damage e s k m cr cw))
    \<and> (ComputeSideRating_lin rounds kills deaths damage e s k m cr cw = NaN
        \<or> inRatingRange (ComputeSideRating_lin rounds kills deaths damage e s k m cr cw))"
  using assms ComputeFinalRating_clamped [of p c] ComputeFinalRating_lin_clamped [of p]
    ComputeSideRating_clamped [of rounds c kills deaths damage e s k m cr cw]
    ComputeSideRating_lin_clamped [of rounds kills deaths damage e s k m cr cw]
  by blast

text \<open>
  The theorem at the one-round side of the example above and at the record that carries it.
\<close>

theorem rating_in_range_or_NaN_witness:
  "RoundsPlayed (sideRecord 1 1 0 100 (Fin (9 / 5)) (Fin 0) (Fin 1) [0, 0, 0, 0, 0, 0] 0 0) \<noteq> 0
   \<and> (1 :: goint) \<noteq> 0
   \<and> inRatingRange (ComputeFinalRating documentedConstants
         (sideRecord 1 1 0 100 (Fin (9 / 5)) (Fin 0) (Fin 1) [0, 0, 0, 0, 0, 0] 0 0))
   \<and> inRatingRange (ComputeSideRating documentedConstants 1 1 0 100 (Fin (9 / 5)) (Fin 0) (Fin 1)
         [0, 0, 0, 0, 0, 0] 0 0)"
proof -
  have r: "RoundsPlayed (sideRecord 1 1 0 100 (Fin (9 / 5)) (Fin 0) (Fin 1) [0, 0, 0, 0, 0, 0] 0 0)
             \<noteq> 0"
    by (simp add: sideRecord_def)
  have one: "(1 :: goint) \<noteq> 0" by simp
  from rating_in_range_or_NaN [OF r one, of documentedConstants 1 0 100 "Fin (9 / 5)" "Fin 0"
      "Fin 1" "[0, 0, 0, 0, 0, 0]" 0 0]
  show ?thesis
    using r by (simp add: final_example_value side_example_value inRatingRange_def
        MinRating_def MaxRating_def)
qed

text \<open>
  Counterexample to C1 as stated: the zero value of the record (no round played) is rated
  0 by both files, and 0 is not in \<open>[0.20, 3.00]\<close>; the same for a side with zero rounds.
\<close>

theorem rating_zero_rounds_out_of_range:
  "ComputeFinalRating documentedConstants zeroStats = Fin 0
   \<and> \<not> inRatingRange (ComputeFinalRating documentedConstants zeroStats)
   \<and> \<not> inRatingRange (ComputeFinalRating_lin zeroStats)
   \<and> \<not> inRatingRange (ComputeSideRating documentedConstants 0 0 0 0 (Fin 0) (Fin 0) (Fin 0)
          [0, 0, 0, 0, 0, 0] 0 0)
   \<and> \<not> inRatingRange (ComputeSideRating_lin 0 0 0 0 (Fin 0) (Fin 0) (Fin 0)
          [0, 0, 0, 0, 0, 0] 0 0)"
proof -
  have z: "RoundsPlayed zeroStats = 0" by (simp add: zeroStats_def)
  have out: "\<not> inRatingRange (Fin 0)" by (simp add: inRatingRange_def MinRating_def)
  show ?thesis
    by (simp add: ComputeFinalRating_zero [OF z] ComputeFinalRating_lin_zero [OF z]
        ComputeSideRating_zero ComputeSideRating_lin_zero out)
qed

text \<open>
  Claim C4.  For a record with \<open>RoundsPlayed = 0\<close> every derived per-round rate (ADR,
  KPR, DPR, KAST, per-round swing) is reported as 0, and for every record the rates that
  are quotients of counters are finite, so no division by zero takes place.  With
  \<open>RoundsPlayed = 0\<close>, or with the \<open>rounds\<close> argument 0, all four rating entry points
  return 0: the test is the first statement of each function and the result does not
  depend on any other field, argument or constant, so no quotient takes part in it.
\<close>

theorem rating_zero_rounds:
  assumes "RoundsPlayed p = 0"
  shows "computeDerivedStats p kastRounds
       = \<lparr>ADR = Fin 0, KPR = Fin 0, DPR = Fin 0, KASTRate = Fin 0, SwingPerRound = Fin 0\<rparr>
    \<and> isFinite (ADR (computeDerivedStats q kastRounds))
    \<and> isFinite (KPR (computeDerivedStats q kastRounds))
    \<and> isFinite (DPR (computeDerivedStats q kastRounds))
    \<and> isFinite (KASTRate (computeDerivedStats q kastRounds))
    \<and> ComputeFinalRating c p = Fin 0
    \<and> ComputeFinalRating_lin p = Fin 0
    \<and> ComputeSideRating c 0 kills deaths damage e s k m cr cw = Fin 0
    \<and> ComputeSideRating_lin 0 kills deaths damage e s k m cr cw = Fin 0"
  using assms computeDerivedStats_finite [of q kastRounds]
  by (simp add: ComputeFinalRating_zero ComputeFinalRating_lin_zero ComputeSideRating_zero
      ComputeSideRating_lin_zero computeDerivedStats_zero)

theorem rating_zero_rounds_witness:
  "RoundsPlayed (zeroStats\<lparr>Kills := 3, Deaths := 1, Damage := 250\<rparr>) = 0
   \<and> computeDerivedStats (zeroStats\<lparr>Kills := 3, Deaths := 1, Damage := 250\<rparr>) 2
       = \<lparr>ADR = Fin 0, KPR = Fin 0, DPR = Fin 0, KASTRate = Fin 0, SwingPerRound = Fin 0\<rparr>
   \<and> ComputeFinalRating documentedConstants (zeroStats\<lparr>Kills := 3, Deaths := 1, Damage := 250\<rparr>)
       = Fin 0
   \<and> ComputeFinalRating_lin (zeroStats\<lparr>Kills := 3, Deaths := 1, Damage := 250\<rparr>) = Fin 0
   \<and> ComputeSideRating documentedConstants 0 3 1 250 (Fin 2) (Fin 0) (Fin 2) [0, 0, 1, 0, 0, 0] 0 0
       = Fin 0
   \<and> ComputeSideRating_lin 0 3 1 250 (Fin 2) (Fin 0) (Fin 2) [0, 0, 1, 0, 0, 0] 0 0 = Fin 0"
proof -
  have z: "RoundsPlayed (zeroStats\<lparr>Kills := 3, Deaths := 1, Damage := 250\<rparr>) = 0"
    by (simp add: zeroStats_def)
  from rating_zero_rounds [OF z, of 2 zeroStats documentedConstants 3 1 250 "Fin 2" "Fin 0"
      "Fin 2" "[0, 0, 1, 0, 0, 0]" 0 0]
  show ?thesis using z by simp
qed

section \<open>Advantage Tracker (C2, C3, C8)\<close>

text \<open>
  Claim C2, as amended.  For every tracker, killer \<open>k\<close> and side \<open>s\<close>, \<open>RecordKill\<close>
  returns the distinct ids other than \<open>k\<close> that hold a slot in the ledger of \<open>s\<close>, each at
  the place of its oldest slot, computed on the ledger as it was before the call; it then
  appends one slot for \<open>k\<close> at the tail of that ledger and leaves the other ledger alone.
  The scenario of the claim needs two conditions that its wording leaves out: the ledger of
  \<open>s\<close> is empty before the first kill, and the third killer \<open>C\<close> is neither \<open>A\<close> nor \<open>B\<close>
  (a killer is never a beneficiary of the own kill).  Then the third call returns
  \<open>[A, B]\<close>.
\<close>

theorem RecordKill_beneficiaries:
  "fst (RecordKill tk k s) = beneficiaries_spec (getSlots tk s) k
   \<and> distinct (fst (RecordKill tk k s))
   \<and> set (fst (RecordKill tk k s)) = PlayerID ` set (getSlots tk s) - {k}
   \<and> getSlots (snd (RecordKill tk k s)) s = getSlots tk s @ [\<lparr>PlayerID = k, Side = s\<rparr>]
   \<and> otherSlots (snd (RecordKill tk k s)) s = otherSlots tk s
   \<and> (getSlots tk s = [] \<and> B \<noteq> A \<and> C \<noteq> A \<and> C \<noteq> B \<longrightarrow>
        fst (RecordKill (snd (RecordKill (snd (RecordKill tk A s)) B s)) C s) = [A, B])"
proof -
  have c1: "fst (RecordKill tk k s) = beneficiaries_spec (getSlots tk s) k"
    by (rule RecordKill_fst)
  have c2: "distinct (fst (RecordKill tk k s))"
    by (simp add: RecordKill_fst beneficiaries_spec_def firstOccurrences_distinct)
  have c3: "set (fst (RecordKill tk k s)) = PlayerID ` set (getSlots tk s) - {k}"
    by (auto simp: RecordKill_fst beneficiaries_spec_def firstOccurrences_set)
  have c4: "getSlots tk s = [] \<and> B \<noteq> A \<and> C \<noteq> A \<and> C \<noteq> B \<longrightarrow>
       fst (RecordKill (snd (RecordKill (snd (RecordKill tk A s)) B s)) C s) = [A, B]"
    by (simp add: RecordKill_fst RecordKill_getSlots beneficiaries_spec_def)
  from c1 c2 c3 c4 show ?thesis
    using RecordKill_getSlots [of tk k s] RecordKill_otherSlots [of tk k s] by blast
qed

theorem RecordKill_beneficiaries_witness:
  "getSlots NewAdvantageTracker TeamTerrorists = []
   \<and> (8 :: uint64) \<noteq> 7 \<and> (9 :: uint64) \<noteq> 7 \<and> (9 :: uint64) \<noteq> 8
   \<and> fst (RecordKill (snd (RecordKill (snd (RecordKill NewAdvantageTracker 7 TeamTerrorists))
        8 TeamTerrorists)) 9 TeamTerrorists) = [7, 8]"
  using RecordKill_beneficiaries [of NewAdvantageTracker 7 TeamTerrorists 8 7 9]
  by (simp add: getSlots_def NewAdvantageTracker_def)

text \<open>
  Counterexample to C2 as stated: on a new tracker, after kills by players 1 and 2 on the
  Terrorist side, a third kill by player 1 returns \<open>[2]\<close>, not \<open>[1, 2]\<close>.
\<close>

theorem RecordKill_third_kill_by_first_killer:
  "fst (RecordKill (snd (RecordKill (snd (RecordKill NewAdvantageTracker 1 TeamTerrorists))
        2 TeamTerrorists)) 1 TeamTerrorists) = [2]
   \<and> fst (RecordKill (snd (RecordKill (snd (RecordKill NewAdvantageTracker 1 TeamTerrorists))
        2 TeamTerrorists)) 1 TeamTerrorists) \<noteq> [1, 2]"
  by (simp add: RecordKill_def Let_def getSlots_def addSlot_def NewAdvantageTracker_def)

text \<open>
  Claim C3.  \<open>RecordDeath v s\<close> drops the oldest slot of the ledger of \<open>s\<close> when there is
  one, then every remaining slot of \<open>v\<close> wherever it stands, and leaves the other ledger
  unchanged.  Of the slots of other players, only the oldest slot of the ledger can go:
  they lose their head exactly when the ledger was not empty and its oldest slot was not
  one of \<open>v\<close>, so at most one of them is removed.
\<close>

theorem RecordDeath_removes_oldest_then_victim:
  "getSlots (RecordDeath tk v s) s
     = filter (\<lambda>x. PlayerID x \<noteq> v) (drop 1 (getSlots tk s))
   \<and> otherSlots (RecordDeath tk v s) s = otherSlots tk s
   \<and> filter (\<lambda>x. PlayerID x \<noteq> v) (getSlots (RecordDeath tk v s) s) =
       drop (if getSlots tk s \<noteq> [] \<and> PlayerID (hd (getSlots tk s)) \<noteq> v then 1 else 0)
         (filter (\<lambda>x. PlayerID x \<noteq> v) (getSlots tk s))
   \<and> length (filter (\<lambda>x. PlayerID x \<noteq> v) (getSlots tk s))
       \<le> length (filter (\<lambda>x. PlayerID x \<noteq> v) (getSlots (RecordDeath tk v s) s)) + 1"
  by (cases "getSlots tk s") (simp_all add: RecordDeath_getSlots RecordDeath_otherSlots)

text \<open>
  Claim C8.  A side other than \<open>TeamTerrorists\<close> reads and writes the CT ledger.
  \<open>getSlots\<close> returns \<open>ctSlots\<close> for it; the beneficiaries of \<open>RecordKill\<close> are computed
  from \<open>ctSlots\<close> and the new slot goes to the tail of \<open>ctSlots\<close> (keeping the side it was
  recorded with); \<open>RecordDeath\<close> drops the oldest slot and the victim's slots of \<open>ctSlots\<close>;
  both leave \<open>tSlots\<close> untouched and act as the call with \<open>TeamCounterTerrorists\<close> does.
  So a slot recorded with such a side is seen by a later kill on the CT side and is
  consumed by a death on the CT side.  \<open>TeamTerrorists\<close> itself reads and writes
  \<open>tSlots\<close> only.
\<close>

theorem non_terrorist_sides_share_ct_ledger:
  "s \<noteq> TeamTerrorists \<Longrightarrow>
     getSlots tk s = ctSlots tk
   \<and> fst (RecordKill tk k s) = beneficiaries_spec (ctSlots tk) k
   \<and> fst (RecordKill tk k s) = fst (RecordKill tk k TeamCounterTerrorists)
   \<and> ctSlots (snd (RecordKill tk k s)) = ctSlots tk @ [\<lparr>PlayerID = k, Side = s\<rparr>]
   \<and> tSlots (snd (RecordKill tk k s)) = tSlots tk
   \<and> fst (RecordKill (snd (RecordKill tk k s)) k' TeamCounterTerrorists)
       = beneficiaries_spec (ctSlots tk @ [\<lparr>PlayerID = k, Side = s\<rparr>]) k'
   \<and> ctSlots (RecordDeath tk v s) = filter (\<lambda>x. PlayerID x \<noteq> v) (drop 1 (ctSlots tk))
   \<and> RecordDeath tk v s = RecordDeath tk v TeamCounterTerrorists
   \<and> tSlots (RecordDeath tk v s) = tSlots tk
   \<and> ctSlots (RecordDeath (snd (RecordKill NewAdvantageTracker k s)) v TeamCounterTerrorists)
       = []
   \<and> getSlots tk TeamTerrorists = tSlots tk
   \<and> fst (RecordKill tk k TeamTerrorists) = beneficiaries_spec (tSlots tk) k
   \<and> ctSlots (snd (RecordKill tk k TeamTerrorists)) = ctSlots tk
   \<and> tSlots (snd (RecordKill tk k TeamTerrorists))
       = tSlots tk @ [\<lparr>PlayerID = k, Side = TeamTerrorists\<rparr>]
   \<and> tSlots (RecordDeath tk v TeamTerrorists)
       = filter (\<lambda>x. PlayerID x \<noteq> v) (drop 1 (tSlots tk))
   \<and> ctSlots (RecordDeath tk v TeamTerrorists) = ctSlots tk"
  by (simp add: RecordKill_def RecordDeath_def Let_def getSlots_def setSlots_def addSlot_def
      removePlayerSlots_def NewAdvantageTracker_def TeamTerrorists_def
      TeamCounterTerrorists_def RecordKill_loop_eq removePlayerSlots_loop_eq
      beneficiaries_spec_def)

theorem non_terrorist_sides_share_ct_ledger_witness:
  "TeamUnassigned \<noteq> TeamTerrorists
   \<and> getSlots NewAdvantageTracker TeamUnassigned = ctSlots NewAdvantageTracker
   \<and> ctSlots (snd (RecordKill NewAdvantageTracker 7 TeamUnassigned))
       = [\<lparr>PlayerID = 7, Side = TeamUnassigned\<rparr>]
   \<and> fst (RecordKill (snd (RecordKill NewAdvantageTracker 7 TeamUnassigned)) 9
        TeamCounterTerrorists) = [7]
   \<and> ctSlots (RecordDeath (snd (RecordKill NewAdvantageTracker 7 TeamUnassigned)) 8
        TeamCounterTerrorists) = []"
proof -
  have h: "TeamUnassigned \<noteq> TeamTerrorists"
    by (simp add: TeamUnassigned_def TeamTerrorists_def)
  from non_terrorist_sides_share_ct_ledger [OF h, of NewAdvantageTracker 7 9 8]
  show ?thesis using h by (simp add: NewAdvantageTracker_def beneficiaries_spec_def)
qed

section \<open>The per-side entry point against the final rating (C5)\<close>

text \<open>
  Claim C5, as amended.  \<open>ComputeSideRating\<close> computes the kill, death, ADR, swing,
  multi-kill and KAST components and the clutch modifier exactly as \<open>ComputeFinalRating\<close>
  does on the record that carries the side's values (KAST fraction \<open>kast / rounds\<close>, every
  field that is not tracked per side zero), but it does not combine them with the package
  weights: its result is that of \<open>ComputeFinalRating\<close> under the redistributed weights
  0.32, 0.18, 0.20, 0.12, 0.12, 0.06 with weight 0 for the opening, trade and utility
  components (and no AWP penalty).  The baselines that \<open>ComputeFinalRating\<close> divides by for
  the trade and utility components must not be zero, or the unused components are NaN.
\<close>

theorem ComputeSideRating_redistributed_weights:
  assumes "BaselineTradeKillsPerRound c \<noteq> 0" "BaselineUtilityDamage c \<noteq> 0"
    "BaselineFlashAssists c \<noteq> 0" "BaselineEnemyFlashDur c \<noteq> 0"
  shows "ComputeSideRating c rounds kills deaths damage e s k m cr cw =
    ComputeFinalRating (sideWeights c) (sideRecord rounds kills deaths damage e s k m cr cw)"
proof (cases "rounds = 0")
  case True
  then show ?thesis
    by (simp add: ComputeSideRating_def ComputeFinalRating_def feq_float64_zero sideRecord_def)
next
  case False
  with assms show ?thesis
    by (simp add: ComputeSideRating_def ComputeFinalRating_def Let_def feq_float64_zero
        sideRecord_def sideWeights_def zeroStats_def plus_Fin_0 minus_Fin_0 minus_Fin float64_0
        zero_div_float64 zero_div_float64_pos
        split del: if_split cong: if_cong)
qed

theorem ComputeSideRating_redistributed_weights_witness:
  "BaselineTradeKillsPerRound documentedConstants \<noteq> 0
   \<and> BaselineUtilityDamage documentedConstants \<noteq> 0
   \<and> BaselineFlashAssists documentedConstants \<noteq> 0
   \<and> BaselineEnemyFlashDur documentedConstants \<noteq> 0
   \<and> ComputeFinalRating (sideWeights documentedConstants)
        (sideRecord 1 1 0 100 (Fin (9 / 5)) (Fin 0) (Fin 1) [0, 0, 0, 0, 0, 0] 0 0)
       = Fin (6737 / 3850)"
proof -
  have b: "BaselineTradeKillsPerRound documentedConstants \<noteq> 0"
    "BaselineUtilityDamage documentedConstants \<noteq> 0"
    "BaselineFlashAssists documentedConstants \<noteq> 0"
    "BaselineEnemyFlashDur documentedConstants \<noteq> 0"
    by (simp_all add: documentedConstants_def)
  from ComputeSideRating_redistributed_weights [OF b, of 1 1 0 100 "Fin (9 / 5)" "Fin 0" "Fin 1"
      "[0, 0, 0, 0, 0, 0]" 0 0]
  show ?thesis using b by (simp add: side_example_value)
qed

text \<open>
  Counterexample to C5 as stated, with the weights that rating.go documents for
  \<open>ComputeFinalRating\<close>.  One round on the side, one pistol-against-rifle kill (eco value
  1.8, 100 damage), no death, KAST count 1: \<open>ComputeSideRating\<close> gives 6737/3850 (about
  1.750).  \<open>ComputeFinalRating\<close> gives 31741/19250 (about 1.649) on the record with the
  other fields zero, and 2567/1540 (about 1.667) on the record whose trade and utility
  fields are chosen so that the opening, trade and utility ratings are all exactly 1.0.
\<close>

theorem ComputeSideRating_differs_from_final:
  "ComputeSideRating documentedConstants 1 1 0 100 (Fin (9 / 5)) (Fin 0) (Fin 1)
       [0, 0, 0, 0, 0, 0] 0 0
     \<noteq> ComputeFinalRating documentedConstants
         (sideRecord 1 1 0 100 (Fin (9 / 5)) (Fin 0) (Fin 1) [0, 0, 0, 0, 0, 0] 0 0)
   \<and> ComputeSideRating documentedConstants 1 1 0 100 (Fin (9 / 5)) (Fin 0) (Fin 1)
       [0, 0, 0, 0, 0, 0] 0 0
     \<noteq> ComputeFinalRating documentedConstants
         ((sideRecord 1 1 0 100 (Fin (9 / 5)) (Fin 0) (Fin 1) [0, 0, 0, 0, 0, 0] 0 0)
            \<lparr>TradeKills := 1, UtilityDamage := 1, FlashAssists := 1,
             EnemyFlashDuration := Fin 1\<rparr>)"
  by (simp add: side_example_value final_example_value final_neutral_example_value)

section \<open>Constants (C6, C7) and pistol rounds (C9)\<close>

text \<open>
  Claim C6.  Pistol against rifle (1.80) is worth more than equal equipment (1.00), which
  is worth more than rifle against pistol (0.70); dying to a pistol (1.60) costs more than
  dying to equal equipment (1.00), which costs more than dying as the pistol to a rifle
  (0.70); and each of the two tables of eight tiers is strictly decreasing in the order of
  the source.
\<close>

theorem eco_tiers_ordered:
  "EcoKillPistolVsRifle = 1.80 \<and> EcoKillEqual = 1.00 \<and> EcoKillRifleVsPistol = 0.70
   \<and> EcoKillEqual < EcoKillPistolVsRifle \<and> EcoKillRifleVsPistol < EcoKillEqual
   \<and> EcoDeathToPistol = 1.60 \<and> EcoDeathEqual = 1.00 \<and> EcoDeathPistolVsRifle = 0.70
   \<and> EcoDeathEqual < EcoDeathToPistol \<and> EcoDeathPistolVsRifle < EcoDeathEqual
   \<and> strictlyDecreasing ecoKillTiers \<and> strictlyDecreasing ecoDeathTiers"
  by (simp add: ecoKillTiers_def ecoDeathTiers_def EcoKillPistolVsRifle_def
      EcoKillEcoVsForce_def EcoKillForceVsFullBuy_def EcoKillSlightDisadvantage_def
      EcoKillEqual_def EcoKillSlightAdvantage_def EcoKillAdvantage_def
      EcoKillRifleVsPistol_def EcoDeathToPistol_def EcoDeathToEco_def EcoDeathToForceBuy_def
      EcoDeathSlightAdvantage_def EcoDeathEqual_def EcoDeathSlightDisadvantage_def
      EcoDeathDisadvantage_def EcoDeathPistolVsRifle_def)

text \<open>
  Claim C7.  The trade window is five seconds of ticks at the tick rate of the constants
  file: \<open>TradeWindowTicks = 5 * TickRate\<close>, that is \<open>320 = 5 * 64\<close>.
\<close>

theorem TradeWindowTicks_five_seconds:
  "TradeWindowTicks = 5 * TickRate \<and> TradeWindowTicks = 320 \<and> TickRate = 64"
  by (simp add: TradeWindowTicks_def TickRate_def)

text \<open>
  Claim C9.  \<open>IsPistolRound n\<close> is true exactly for round 1, round 13 and the rounds past
  24 with \<open>(n - 25) mod 6 = 0\<close> (25, 31, 37, ...), for every 64-bit \<open>n\<close>, negative ones
  included.
\<close>

theorem IsPistolRound_iff:
  "IsPistolRound n \<longleftrightarrow>
     sint n = 1 \<or> sint n = 13 \<or> (24 < sint n \<and> (sint n - 25) mod 6 = 0)"
proof (cases "24 < sint n")
  case True
  then have "0 \<le> sint (n - 25)" by (simp add: sint_sub25)
  from go_rem_6_zero [OF this] True show ?thesis
    by (simp add: IsPistolRound_def FirstHalfPistolRound_def SecondHalfPistolRound_def
        RegulationRounds_def OvertimeLength_def sint_sub25 word_eq_iff_sint [of n 1]
        word_eq_iff_sint [of n 13])
next
  case False
  then show ?thesis
    by (simp add: IsPistolRound_def FirstHalfPistolRound_def SecondHalfPistolRound_def
        RegulationRounds_def OvertimeLength_def word_eq_iff_sint [of n 1]
        word_eq_iff_sint [of n 13])
qed

section \<open>The multi-kill histogram (C10)\<close>

text \<open>
  Claim C10.  In both rating files \<open>sumMulti\<close> is a weighted sum of the entries 2 to 5 of
  the histogram (weights 1, 3, 7, 15, and 2, 6, 14, 30 in the linear file); the entries 0
  and 1 are never read.  Whatever is stored at the indices 0 and 1, \<open>sumMulti\<close> and with it
  all four rating results stay the same.
\<close>

theorem sumMulti_ignores_zero_and_single_kills:
  "sumMulti m = m ! 2 * 1 + m ! 3 * 3 + m ! 4 * 7 + m ! 5 * 15
   \<and> sumMulti_lin m = m ! 2 * 2 + m ! 3 * 6 + m ! 4 * 14 + m ! 5 * 30
   \<and> sumMulti (m[0 := a, 1 := b]) = sumMulti m
   \<and> sumMulti_lin (m[0 := a, 1 := b]) = sumMulti_lin m
   \<and> ComputeFinalRating c (p\<lparr>MultiKills := (MultiKills p)[0 := a, 1 := b]\<rparr>)
       = ComputeFinalRating c p
   \<and> ComputeFinalRating_lin (p\<lparr>MultiKillsRaw := (MultiKillsRaw p)[0 := a, 1 := b]\<rparr>)
       = ComputeFinalRating_lin p
   \<and> ComputeSideRating c r k d dm e s ka (m[0 := a, 1 := b]) cr cw
       = ComputeSideRating c r k d dm e s ka m cr cw
   \<and> ComputeSideRating_lin r k d dm e s ka (m[0 := a, 1 := b]) cr cw
       = ComputeSideRating_lin r k d dm e s ka m cr cw"
proof -
  have u: "sumMulti (m[0 := a, 1 := b]) = sumMulti m"
    "sumMulti_lin (m[0 := a, 1 := b]) = sumMulti_lin m"
    using sumMulti_update_01 [of m a b] sumMulti_lin_update_01 [of m a b] by simp_all
  show ?thesis
    using u sumMulti_eq [of m] sumMulti_lin_eq [of m]
      ComputeFinalRating_update_01 [of c p a b] ComputeFinalRating_lin_update_01 [of p a b]
      ComputeSideRating_update_01 [of c r k d dm e s ka m a b cr cw]
      ComputeSideRating_lin_update_01 [of r k d dm e s ka m a b cr cw]
    by blast
qed

end
